theory Spec2Isabelle
  imports Main
begin

section \<open>JavaScript values used by the session core\<close>

text \<open>
  Strings are \<open>string\<close>; a property that may be absent (\<open>undefined\<close>) is an
  \<open>option\<close>. \<open>toLowerCase\<close> is modelled on the ASCII letters, every other
  character is left as it is.
\<close>

definition toLowerCase_char :: "char \<Rightarrow> char" where
  "toLowerCase_char c =
     (case map_of (zip ''ABCDEFGHIJKLMNOPQRSTUVWXYZ'' ''abcdefghijklmnopqrstuvwxyz'') c of
        None \<Rightarrow> c
      | Some l \<Rightarrow> l)"

definition toLowerCase :: "string \<Rightarrow> string" where
  "toLowerCase s = map toLowerCase_char s"

text \<open>Truthiness of an optional string: \<open>undefined\<close> and the empty string are falsy.\<close>

fun truthy :: "string option \<Rightarrow> bool" where
  "truthy None = False"
| "truthy (Some s) = (s \<noteq> [])"

text \<open>The operator \<open>a || b\<close> on optional strings.\<close>

definition or_js :: "string option \<Rightarrow> string option \<Rightarrow> string option" where
  "or_js a b = (if truthy a then a else b)"

section \<open>Session records\<close>

text \<open>
  The principal that passport stores in a session (\<open>sessionData.passport.user\<close>), with
  the fields the revocation code reads: \<open>id\<close>, \<open>emails[i].value\<close>, \<open>email\<close>,
  \<open>_json.email\<close>, \<open>_json.sub\<close> and \<open>preferred_username\<close>.
\<close>

record email_entry =
  entry_value :: "string option"

record profile_json =
  json_email :: "string option"
  json_sub :: "string option"

record principal =
  user_id :: "string option"
  user_emails :: "email_entry list option"
  user_email :: "string option"
  user_json :: "profile_json option"
  user_preferred_username :: "string option"

record passport_data =
  passport_user :: "principal option"

record session_data =
  passport :: "passport_data option"
  mfaVerified :: "bool option"
  mfaVerifiedAt :: "int option"
  mfaReturnUrl :: "string option"

section \<open>The session store and the directory (sessionStore.mjs)\<close>

text \<open>
  Modelled from the spec: the session store, an express-session \<open>MemoryStore\<close>, is not
  under src/. Section 4.2 gives its capability surface: \<open>destroy(sessionId)\<close>, and
  \<open>all()\<close> with a mapping from session id to record. The store is an object from
  session id to session record; \<open>destroy\<close> deletes the record of the id at once and
  \<open>all\<close> hands every record to its callback without an error. The field \<open>calls\<close>
  logs the calls made to the store, in order.
\<close>

datatype store_call = StoreDestroy string | StoreAll

record memory_store =
  sessions :: "(string \<times> session_data) list"
  calls :: "store_call list"

definition store_destroy :: "string \<Rightarrow> memory_store \<Rightarrow> memory_store" where
  "store_destroy sid s =
     s\<lparr>sessions := filter (\<lambda>p. fst p \<noteq> sid) (sessions s),
       calls := calls s @ [StoreDestroy sid]\<rparr>"

text \<open>The result \<open>None\<close> stands for \<open>err || !sessions\<close> in the callback.\<close>

definition store_all ::
  "memory_store \<Rightarrow> (string \<times> session_data) list option \<times> memory_store" where
  "store_all s = (Some (sessions s), s\<lparr>calls := calls s @ [StoreAll]\<rparr>)"

text \<open>
  \<open>userSessions\<close> is a \<open>Map\<close> from lowercased email to a \<open>Set\<close> of session ids. A
  \<open>Set\<close> is a list without repetition in insertion order.
\<close>

type_synonym directory = "string \<rightharpoonup> string list"

definition set_add :: "string \<Rightarrow> string list \<Rightarrow> string list" where
  "set_add x xs = (if x \<in> set xs then xs else xs @ [x])"

definition set_delete :: "string \<Rightarrow> string list \<Rightarrow> string list" where
  "set_delete x xs = filter (\<lambda>y. y \<noteq> x) xs"

record app_state =
  userSessions :: directory
  store :: memory_store

definition registerUserSession :: "string \<Rightarrow> string \<Rightarrow> directory \<Rightarrow> directory" where
  "registerUserSession email sessionId m =
     (if email = [] \<or> sessionId = [] then m
      else
        let normalizedEmail = toLowerCase email;
            m1 = (if m normalizedEmail = None then m(normalizedEmail \<mapsto> []) else m)
        in case m1 normalizedEmail of
             None \<Rightarrow> m1
           | Some ids \<Rightarrow> m1(normalizedEmail \<mapsto> set_add sessionId ids))"

definition unregisterUserSession :: "string \<Rightarrow> string \<Rightarrow> directory \<Rightarrow> directory" where
  "unregisterUserSession email sessionId m =
     (if email = [] \<or> sessionId = [] then m
      else
        let normalizedEmail = toLowerCase email
        in case m normalizedEmail of
             None \<Rightarrow> m
           | Some ids \<Rightarrow>
               let ids' = set_delete sessionId ids
               in if length ids' = 0 then m(normalizedEmail := None)
                  else m(normalizedEmail \<mapsto> ids'))"

text \<open>Method 1 of \<open>destroyUserSessions\<close>: the loop over the ids of the directory entry.\<close>

fun destroy_registered ::
  "string list \<Rightarrow> memory_store \<Rightarrow> nat \<Rightarrow> memory_store \<times> nat" where
  "destroy_registered [] s destroyedCount = (s, destroyedCount)"
| "destroy_registered (sid # sids) s destroyedCount =
     destroy_registered sids (store_destroy sid s) (destroyedCount + 1)"

text \<open>
  The email the fallback scan reads from a principal:
  \<open>user.emails?.[0]?.value || user.email || user._json?.email || user.preferred_username\<close>.
\<close>

definition first_email_value :: "principal \<Rightarrow> string option" where
  "first_email_value user =
     (case user_emails user of
        None \<Rightarrow> None
      | Some [] \<Rightarrow> None
      | Some (e # _) \<Rightarrow> entry_value e)"

definition nested_email :: "principal \<Rightarrow> string option" where
  "nested_email user = (case user_json user of None \<Rightarrow> None | Some j \<Rightarrow> json_email j)"

definition userEmail_of :: "principal \<Rightarrow> string option" where
  "userEmail_of user =
     or_js (or_js (or_js (first_email_value user) (user_email user)) (nested_email user))
       (user_preferred_username user)"

text \<open>The test of one session in the fallback scan (lines 80 to 87).\<close>

definition email_matches :: "string \<Rightarrow> session_data \<Rightarrow> bool" where
  "email_matches normalizedEmail sessionData =
     (case passport sessionData of
        None \<Rightarrow> False
      | Some p \<Rightarrow>
          (case passport_user p of
             None \<Rightarrow> False
           | Some user \<Rightarrow>
               (case userEmail_of user of
                  None \<Rightarrow> False
                | Some userEmail \<Rightarrow>
                    userEmail \<noteq> [] \<and> toLowerCase userEmail = normalizedEmail)))"

text \<open>
  Method 2: the loop over \<open>Object.entries(sessions)\<close>. The entries are the snapshot
  handed over by \<open>store.all\<close>; the destroy calls act on the store itself.
\<close>

fun fallback_scan ::
  "string \<Rightarrow> (string \<times> session_data) list \<Rightarrow> memory_store \<Rightarrow> nat \<Rightarrow> memory_store \<times> nat"
where
  "fallback_scan normalizedEmail [] s destroyedCount = (s, destroyedCount)"
| "fallback_scan normalizedEmail ((sid, sessionData) # rest) s destroyedCount =
     (if email_matches normalizedEmail sessionData
      then fallback_scan normalizedEmail rest (store_destroy sid s) (destroyedCount + 1)
      else fallback_scan normalizedEmail rest s destroyedCount)"

definition destroyUserSessions :: "string \<Rightarrow> app_state \<Rightarrow> nat \<times> app_state" where
  "destroyUserSessions email st =
     (if email = [] then (0, st)
      else
        let normalizedEmail = toLowerCase email;
            (s1, count1, m1) =
              (case userSessions st normalizedEmail of
                 None \<Rightarrow> (store st, 0, userSessions st)
               | Some sessionIds \<Rightarrow>
                   (let (s, c) = destroy_registered sessionIds (store st) 0
                    in (s, c, (userSessions st)(normalizedEmail := None))));
            (res, s2) = store_all s1
        in case res of
             None \<Rightarrow> (count1, \<lparr>userSessions = m1, store = s2\<rparr>)
           | Some snapshot \<Rightarrow>
               (let (s3, count2) = fallback_scan normalizedEmail snapshot s2 count1
                in (count2, \<lparr>userSessions = m1, store = s3\<rparr>)))"

section \<open>Revocation by subject (universalLogout.mjs)\<close>

text \<open>The test \<open>user.id === subject || user._json?.sub === subject\<close> of one session.\<close>

definition nested_sub :: "principal \<Rightarrow> string option" where
  "nested_sub user = (case user_json user of None \<Rightarrow> None | Some j \<Rightarrow> json_sub j)"

definition subject_matches :: "string \<Rightarrow> session_data \<Rightarrow> bool" where
  "subject_matches subject sessionData =
     (case passport sessionData of
        None \<Rightarrow> False
      | Some p \<Rightarrow>
          (case passport_user p of
             None \<Rightarrow> False
           | Some user \<Rightarrow> user_id user = Some subject \<or> nested_sub user = Some subject))"

fun subject_scan ::
  "string \<Rightarrow> (string \<times> session_data) list \<Rightarrow> memory_store \<Rightarrow> nat \<Rightarrow> memory_store \<times> nat"
where
  "subject_scan subject [] s destroyedCount = (s, destroyedCount)"
| "subject_scan subject ((sid, sessionData) # rest) s destroyedCount =
     (if subject_matches subject sessionData
      then subject_scan subject rest (store_destroy sid s) (destroyedCount + 1)
      else subject_scan subject rest s destroyedCount)"

definition destroyUserSessionsBySubject :: "string \<Rightarrow> app_state \<Rightarrow> nat \<times> app_state" where
  "destroyUserSessionsBySubject subject st =
     (let (res, s1) = store_all (store st)
      in case res of
           None \<Rightarrow> (0, st\<lparr>store := s1\<rparr>)
         | Some snapshot \<Rightarrow>
             (let (s2, destroyedCount) = subject_scan subject snapshot s1 0
              in (destroyedCount, st\<lparr>store := s2\<rparr>)))"

section \<open>The step-up gate (routes/wire-transfer.mjs)\<close>

text \<open>MFA verification timeout (5 minutes), in milliseconds.\<close>

definition MFA_TIMEOUT :: int where
  "MFA_TIMEOUT = 5 * 60 * 1000"

text \<open>
  A request carries the answer of \<open>req.isAuthenticated()\<close> and its session, in which
  \<open>mfaVerified\<close> is a boolean and \<open>mfaVerifiedAt\<close> a number of milliseconds, each of
  them possibly absent. A middleware either answers with a redirect or calls \<open>next\<close>;
  the session it leaves behind is returned with the outcome. The last handler of a route
  is a parameter.
\<close>

record request =
  isAuthenticated :: bool
  session :: session_data

datatype 'a outcome = Redirect string | Handled 'a

type_synonym 'a handler = "request \<Rightarrow> 'a outcome \<times> session_data"

definition ensureLoggedIn :: "request \<Rightarrow> 'a handler \<Rightarrow> 'a outcome \<times> session_data" where
  "ensureLoggedIn req next =
     (if isAuthenticated req then next req else (Redirect ''/login'', session req))"

text \<open>
  \<open>now\<close> is the value of \<open>Date.now()\<close>. The condition is
  \<open>mfaVerified && mfaVerifiedAt && (now - mfaVerifiedAt) < MFA_TIMEOUT\<close>: an absent flag
  or timestamp is falsy, and so is the timestamp \<open>0\<close>.
\<close>

definition mfa_fresh :: "int \<Rightarrow> session_data \<Rightarrow> bool" where
  "mfa_fresh now s =
     (mfaVerified s = Some True \<and>
      (case mfaVerifiedAt s of
         None \<Rightarrow> False
       | Some t \<Rightarrow> t \<noteq> 0 \<and> now - t < MFA_TIMEOUT))"

definition ensureMfaVerified ::
  "int \<Rightarrow> request \<Rightarrow> 'a handler \<Rightarrow> 'a outcome \<times> session_data" where
  "ensureMfaVerified now req next =
     (if mfa_fresh now (session req) then next req
      else (Redirect ''/stepup-mfa'', (session req)\<lparr>mfaReturnUrl := Some ''/wire-transfer''\<rparr>))"

text \<open>\<open>router.get('/', ensureLoggedIn, ensureMfaVerified, handler)\<close>\<close>

definition wire_transfer_get ::
  "int \<Rightarrow> 'a handler \<Rightarrow> request \<Rightarrow> 'a outcome \<times> session_data" where
  "wire_transfer_get now handler req =
     ensureLoggedIn req (\<lambda>r. ensureMfaVerified now r handler)"

text \<open>\<open>router.post('/', ensureLoggedIn, handler)\<close>\<close>

definition wire_transfer_post :: "'a handler \<Rightarrow> request \<Rightarrow> 'a outcome \<times> session_data" where
  "wire_transfer_post handler req = ensureLoggedIn req handler"

section \<open>The revocation token validator (universalLogout.mjs)\<close>

text \<open>
  A JavaScript error with its \<open>name\<close> and \<open>message\<close>. A decoded token has the header
  fields \<open>typ\<close>, \<open>alg\<close>, \<open>kid\<close> and the claims read by the verification. The
  signature is symbolic: \<open>jwt_signer\<close> is the public key that verifies it.
\<close>

record js_error =
  err_name :: string
  err_message :: string

record jwt =
  jwt_typ :: "string option"
  jwt_alg :: string
  jwt_kid :: "string option"
  jwt_signer :: string
  jwt_iss :: "string option"
  jwt_aud :: "string list"
  jwt_exp :: "int option"
  jwt_nbf :: "int option"

text \<open>
  \<open>jwksClientInstance\<close> is \<open>null\<close> until \<open>initializeJwksClient\<close> has run; afterwards
  it answers a key id with an error or with a public key. The client of the jwks-rsa
  library is a parameter.
\<close>

type_synonym jwks_client = "string option \<Rightarrow> js_error + string"

definition getSigningKey :: "jwks_client option \<Rightarrow> jwt \<Rightarrow> js_error + string" where
  "getSigningKey jwksClientInstance header =
     (case jwksClientInstance of
        None \<Rightarrow> Inl \<lparr>err_name = ''Error'', err_message = ''JWKS client not initialized''\<rparr>
      | Some client \<Rightarrow> client (jwt_kid header))"

text \<open>
  Modelled from the spec: \<open>jwt.verify\<close> belongs to the jsonwebtoken library, which is
  not under src/. Section 4.4, step 4: verify the signature with an approved algorithm
  only, the issuer exactly, that the audience contains the expected one, and expiry and
  not-before with the clock tolerance; any failure gives the corresponding error. The
  error names are the library's, which \<open>universalLogoutAuth\<close> tests: an expired token
  gives \<open>TokenExpiredError\<close>, a token not yet valid \<open>NotBeforeError\<close>, every other
  failure \<open>JsonWebTokenError\<close>. Times are in seconds. The checks are made in the
  library's order.
\<close>

definition jwt_verify ::
  "int \<Rightarrow> jwt \<Rightarrow> string \<Rightarrow> string list \<Rightarrow> string \<Rightarrow> string \<Rightarrow> int \<Rightarrow> js_error + jwt" where
  "jwt_verify clockTimestamp t signingKey algorithms issuer audience clockTolerance =
     (if jwt_alg t \<notin> set algorithms
      then Inl \<lparr>err_name = ''JsonWebTokenError'', err_message = ''invalid algorithm''\<rparr>
      else if jwt_signer t \<noteq> signingKey
      then Inl \<lparr>err_name = ''JsonWebTokenError'', err_message = ''invalid signature''\<rparr>
      else if (case jwt_nbf t of None \<Rightarrow> False | Some n \<Rightarrow> n > clockTimestamp + clockTolerance)
      then Inl \<lparr>err_name = ''NotBeforeError'', err_message = ''jwt not active''\<rparr>
      else if (case jwt_exp t of None \<Rightarrow> False | Some e \<Rightarrow> clockTimestamp \<ge> e + clockTolerance)
      then Inl \<lparr>err_name = ''TokenExpiredError'', err_message = ''jwt expired''\<rparr>
      else if audience \<notin> set (jwt_aud t)
      then Inl \<lparr>err_name = ''JsonWebTokenError'',
                err_message = ''jwt audience invalid. expected: '' @ audience\<rparr>
      else if jwt_iss t \<noteq> Some issuer
      then Inl \<lparr>err_name = ''JsonWebTokenError'',
                err_message = ''jwt issuer invalid. expected: '' @ issuer\<rparr>
      else Inr t)"

text \<open>
  \<open>decode\<close> is \<open>jwt.decode(token, {complete: true})\<close>, a parameter: \<open>None\<close> for a
  string that is no token. A type other than \<open>global-token-revocation+jwt\<close> is only
  logged.
\<close>

definition validateLogoutToken ::
  "(string \<Rightarrow> jwt option) \<Rightarrow> jwks_client option \<Rightarrow> int \<Rightarrow> string \<Rightarrow> string \<Rightarrow> string
     \<Rightarrow> js_error + jwt" where
  "validateLogoutToken decode jwksClientInstance clockTimestamp token expectedAudience
       expectedIssuer =
     (case decode token of
        None \<Rightarrow> Inl \<lparr>err_name = ''Error'', err_message = ''Invalid token format''\<rparr>
      | Some decoded \<Rightarrow>
          (case getSigningKey jwksClientInstance decoded of
             Inl err \<Rightarrow> Inl err
           | Inr signingKey \<Rightarrow>
               jwt_verify clockTimestamp decoded signingKey [''RS256'', ''RS384'', ''RS512'']
                 expectedIssuer expectedAudience 30))"

text \<open>Responses: \<open>res.status(code).json({error, error_description})\<close> and \<open>res.sendStatus(code)\<close>.\<close>

datatype response = Json nat string string | SendStatus nat

fun status_of :: "response \<Rightarrow> nat" where
  "status_of (Json code _ _) = code"
| "status_of (SendStatus code) = code"

text \<open>\<open>authHeader.split(' ')\<close>\<close>

fun split_on :: "char \<Rightarrow> string \<Rightarrow> string list" where
  "split_on c [] = [[]]"
| "split_on c (x # xs) =
     (if x = c then [] # split_on c xs
      else (case split_on c xs of
              [] \<Rightarrow> [[x]]
            | w # ws \<Rightarrow> (x # w) # ws))"

text \<open>The result of the middleware: a response, or \<open>next()\<close> with \<open>req.logoutToken\<close> set.\<close>

datatype auth_result = Responded response | Next jwt

definition universalLogoutAuth ::
  "(string \<Rightarrow> jwt option) \<Rightarrow> jwks_client option \<Rightarrow> int \<Rightarrow> string \<Rightarrow> string \<Rightarrow> string option
     \<Rightarrow> auth_result" where
  "universalLogoutAuth decode jwksClientInstance clockTimestamp orgUrl revocationEndpoint
       authorization =
     (let expectedIssuer =
            (if orgUrl \<noteq> [] \<and> last orgUrl = CHR ''/'' then butlast orgUrl else orgUrl)
      in case authorization of
           None \<Rightarrow> Responded (Json 401 ''unauthorized'' ''Missing authorization header'')
         | Some authHeader \<Rightarrow>
             if authHeader = []
             then Responded (Json 401 ''unauthorized'' ''Missing authorization header'')
             else
               (case split_on CHR '' '' authHeader of
                  scheme # token # _ \<Rightarrow>
                    if toLowerCase scheme \<noteq> ''bearer'' \<or> token = []
                    then Responded (Json 401 ''unauthorized''
                           ''Invalid authorization scheme. Expected: Bearer {token}'')
                    else
                      (case validateLogoutToken decode jwksClientInstance clockTimestamp token
                              revocationEndpoint expectedIssuer of
                         Inr payload \<Rightarrow> Next payload
                       | Inl err \<Rightarrow>
                           if err_name err = ''TokenExpiredError''
                           then Responded (Json 401 ''unauthorized'' ''Token has expired'')
                           else if err_name err = ''JsonWebTokenError''
                           then Responded (Json 401 ''unauthorized''
                                  (''Invalid token: '' @ err_message err))
                           else Responded (Json 401 ''unauthorized'' ''Token validation failed''))
                | _ \<Rightarrow>
                    Responded (Json 401 ''unauthorized''
                      ''Invalid authorization scheme. Expected: Bearer {token}'')))"

section \<open>The revocation endpoint (universalLogout.mjs)\<close>

text \<open>
  The object \<open>sub_id\<close> of the request body, with string fields that may be absent, and
  the identifier \<open>extractUserIdentifier\<close> returns: \<open>{type: 'email', value, email}\<close> or
  \<open>{type: 'iss_sub', value, issuer, subject}\<close>.
\<close>

record subject_identifier =
  sub_format :: "string option"
  sub_email :: "string option"
  sub_iss :: "string option"
  sub_sub :: "string option"

record request_body =
  body_sub_id :: "subject_identifier option"

datatype user_identifier =
  EmailIdentifier string string
| IssSubIdentifier string string string

definition extractUserIdentifier :: "subject_identifier option \<Rightarrow> user_identifier option" where
  "extractUserIdentifier subId =
     (case subId of
        None \<Rightarrow> None
      | Some s \<Rightarrow>
          if sub_format s = Some ''email'' then
            (case sub_email s of
               None \<Rightarrow> None
             | Some e \<Rightarrow> if e = [] then None else Some (EmailIdentifier e e))
          else if sub_format s = Some ''iss_sub'' then
            (case (sub_iss s, sub_sub s) of
               (Some i, Some u) \<Rightarrow>
                 if i = [] \<or> u = [] then None
                 else Some (IssSubIdentifier (i @ ''|'' @ u) i u)
             | _ \<Rightarrow> None)
          else None)"

text \<open>The text a template literal gives for a string that may be \<open>undefined\<close>.\<close>

definition template_text :: "string option \<Rightarrow> string" where
  "template_text v = (case v of None \<Rightarrow> ''undefined'' | Some s \<Rightarrow> s)"

text \<open>The choice between the two destroy functions by the type of the identifier.\<close>

definition resolve_and_destroy :: "user_identifier \<Rightarrow> app_state \<Rightarrow> nat \<times> app_state" where
  "resolve_and_destroy userIdentifier st =
     (case userIdentifier of
        EmailIdentifier v email \<Rightarrow> destroyUserSessions email st
      | IssSubIdentifier v issuer subject \<Rightarrow> destroyUserSessionsBySubject subject st)"

text \<open>
  The handler of \<open>POST /global-token-revocation\<close>. Both destroy functions resolve
  their promise in every case, so the \<open>catch\<close> branch (422) is not entered.
\<close>

definition global_token_revocation ::
  "request_body option \<Rightarrow> app_state \<Rightarrow> response \<times> app_state" where
  "global_token_revocation body st =
     (case body of
        None \<Rightarrow> (Json 400 ''invalid_request'' ''Request body is required'', st)
      | Some b \<Rightarrow>
          (case body_sub_id b of
             None \<Rightarrow> (Json 400 ''invalid_request'' ''sub_id is required'', st)
           | Some sub_id \<Rightarrow>
               (case extractUserIdentifier (Some sub_id) of
                  None \<Rightarrow>
                    (Json 400 ''invalid_request''
                       (''Unrecognized subject identifier format: ''
                          @ template_text (sub_format sub_id)
                          @ ''. Supported formats: email, iss_sub''), st)
                | Some userIdentifier \<Rightarrow>
                    (let (destroyedCount, st') = resolve_and_destroy userIdentifier st
                     in if destroyedCount = 0 then (SendStatus 204, st')
                        else (SendStatus 204, st')))))"

section \<open>Predicates of the specification and example inputs\<close>

text \<open>The invariant of the directory: no entry holds an empty set of session ids.\<close>

definition directory_invariant :: "directory \<Rightarrow> bool" where
  "directory_invariant m = (\<forall>k. m k \<noteq> Some [])"

text \<open>The ids of the sessions of a snapshot that pass a test, in the order of the scan.\<close>

definition matched ::
  "(session_data \<Rightarrow> bool) \<Rightarrow> (string \<times> session_data) list \<Rightarrow> string list" where
  "matched P snapshot = map fst (filter (\<lambda>p. P (snd p)) snapshot)"

text \<open>Sessions and states for the examples.\<close>

definition empty_principal :: principal where
  "empty_principal =
     \<lparr>user_id = None, user_emails = None, user_email = None, user_json = None,
      user_preferred_username = None\<rparr>"

definition session_of :: "principal \<Rightarrow> session_data" where
  "session_of u =
     \<lparr>passport = Some \<lparr>passport_user = Some u\<rparr>, mfaVerified = None, mfaVerifiedAt = None,
      mfaReturnUrl = None\<rparr>"

definition tracked_and_untracked :: app_state where
  "tracked_and_untracked =
     \<lparr>userSessions = [''a@b.c'' \<mapsto> [''s1'']],
      store = \<lparr>sessions =
                 [(''s1'', session_of (empty_principal\<lparr>user_email := Some ''a@b.c''\<rparr>)),
                  (''s2'', session_of (empty_principal\<lparr>user_email := Some ''A@b.c''\<rparr>))],
               calls = []\<rparr>\<rparr>"

definition untracked_only :: app_state where
  "untracked_only =
     \<lparr>userSessions = Map.empty,
      store = \<lparr>sessions =
                 [(''s7'', session_of
                     (empty_principal\<lparr>user_preferred_username := Some ''a@b.c''\<rparr>))],
               calls = []\<rparr>\<rparr>"

definition idle_state :: app_state where
  "idle_state = \<lparr>userSessions = Map.empty, store = \<lparr>sessions = [], calls = []\<rparr>\<rparr>"

definition shadowed_principal :: principal where
  "shadowed_principal =
     empty_principal\<lparr>user_emails := Some [\<lparr>entry_value = Some ''x@y.z''\<rparr>],
                     user_email := Some ''a@b.c''\<rparr>"

definition shadowed_state :: app_state where
  "shadowed_state =
     \<lparr>userSessions = Map.empty,
      store = \<lparr>sessions = [(''s3'', session_of shadowed_principal)], calls = []\<rparr>\<rparr>"

definition two_subjects :: app_state where
  "two_subjects =
     \<lparr>userSessions = [''a@b.c'' \<mapsto> [''s1'']],
      store = \<lparr>sessions =
                 [(''s1'', session_of (empty_principal\<lparr>user_id := Some ''00u1''\<rparr>)),
                  (''s2'', session_of (empty_principal\<lparr>user_id := Some ''00u2''\<rparr>)),
                  (''s3'', session_of
                     (empty_principal
                        \<lparr>user_json := Some \<lparr>json_email = None, json_sub = Some ''00u1''\<rparr>\<rparr>))],
               calls = []\<rparr>\<rparr>"

text \<open>A field carries the target email when it holds it up to the case of the letters.\<close>

definition carries :: "string \<Rightarrow> string option \<Rightarrow> bool" where
  "carries target field =
     (case field of None \<Rightarrow> False | Some e \<Rightarrow> toLowerCase e = toLowerCase target)"

text \<open>Sessions with and without the step-up marker, and two last handlers.\<close>

definition marked_at :: "int \<Rightarrow> session_data" where
  "marked_at t =
     \<lparr>passport = None, mfaVerified = Some True, mfaVerifiedAt = Some t, mfaReturnUrl = None\<rparr>"

definition unmarked :: session_data where
  "unmarked =
     \<lparr>passport = None, mfaVerified = None, mfaVerifiedAt = None, mfaReturnUrl = None\<rparr>"

definition show_form :: "string handler" where
  "show_form req = (Handled ''wire-transfer'', session req)"

definition process_transfer :: "string handler" where
  "process_transfer req = (Handled ''wire-transfer-confirm'', session req)"

text \<open>
  A key set with the one key id \<open>k1\<close>, tokens that expired at second 1000, and a
  token that expires at second 5000 and is signed with another key.
\<close>

definition okta_keys :: jwks_client where
  "okta_keys kid =
     (if kid = Some ''k1'' then Inr ''pub1''
      else Inl \<lparr>err_name = ''SigningKeyNotFoundError'',
                err_message = ''Unable to find a signing key that matches''\<rparr>)"

definition stale_token :: "string \<Rightarrow> jwt" where
  "stale_token kid =
     \<lparr>jwt_typ = Some ''global-token-revocation+jwt'', jwt_alg = ''RS256'', jwt_kid = Some kid,
      jwt_signer = ''pub1'', jwt_iss = Some ''https://org.example'',
      jwt_aud = [''https://app.example/api/global-token-revocation''],
      jwt_exp = Some 1000, jwt_nbf = None\<rparr>"

definition fresh_token :: jwt where
  "fresh_token = (stale_token ''k1'')\<lparr>jwt_signer := ''pub2'', jwt_exp := Some 5000\<rparr>"

definition decode_wire :: "string \<Rightarrow> jwt option" where
  "decode_wire token =
     (if token = ''t1'' then Some (stale_token ''k1'')
      else if token = ''t9'' then Some (stale_token ''k9'')
      else if token = ''t2'' then Some fresh_token
      else None)"

text \<open>The two variants of a subject identifier that the endpoint supports.\<close>

definition email_variant :: "subject_identifier \<Rightarrow> bool" where
  "email_variant s = (sub_format s = Some ''email'' \<and> truthy (sub_email s))"

definition iss_sub_variant :: "subject_identifier \<Rightarrow> bool" where
  "iss_sub_variant s =
     (sub_format s = Some ''iss_sub'' \<and> truthy (sub_iss s) \<and> truthy (sub_sub s))"

definition sub_id_of ::
  "string option \<Rightarrow> string option \<Rightarrow> string option \<Rightarrow> string option \<Rightarrow> subject_identifier"
where
  "sub_id_of f e i u = \<lparr>sub_format = f, sub_email = e, sub_iss = i, sub_sub = u\<rparr>"

section \<open>Lemmas about the loops\<close>

lemma toLowerCase_Nil_iff: "toLowerCase s = [] \<longleftrightarrow> s = []"
  by (simp add: toLowerCase_def)

lemma lower_abc: "toLowerCase ''a@b.c'' = ''a@b.c''" "toLowerCase ''A@b.c'' = ''a@b.c''"
  by (simp_all add: toLowerCase_def toLowerCase_char_def)

lemma set_add_not_Nil: "set_add x xs \<noteq> []"
  by (auto simp: set_add_def)

lemma filter_keys_twice:
  "filter (\<lambda>p. fst p \<notin> set ys) (filter (\<lambda>p. fst p \<noteq> sid) xs) =
   filter (\<lambda>p. fst p \<notin> set (sid # ys)) xs"
  by (induction xs) auto

lemma destroy_registered_eq:
  "destroy_registered ids s c =
     (s\<lparr>sessions := filter (\<lambda>p. fst p \<notin> set ids) (sessions s),
        calls := calls s @ map StoreDestroy ids\<rparr>, c + length ids)"
proof (induction ids arbitrary: s c)
  case Nil
  show ?case by simp
next
  case (Cons sid ids)
  show ?case
    by (simp add: Cons.IH store_destroy_def filter_keys_twice)
qed

lemma fallback_scan_eq:
  "fallback_scan n snapshot s c =
     (s\<lparr>sessions :=
          filter (\<lambda>p. fst p \<notin> set (matched (email_matches n) snapshot)) (sessions s),
        calls := calls s @ map StoreDestroy (matched (email_matches n) snapshot)\<rparr>,
      c + length (matched (email_matches n) snapshot))"
proof (induction snapshot arbitrary: s c)
  case Nil
  show ?case by (simp add: matched_def)
next
  case (Cons a snapshot)
  obtain sid sd where a: "a = (sid, sd)" by (cases a)
  show ?case
    by (simp add: a Cons.IH store_destroy_def matched_def filter_keys_twice)
qed

lemma subject_scan_eq:
  "subject_scan subject snapshot s c =
     (s\<lparr>sessions :=
          filter (\<lambda>p. fst p \<notin> set (matched (subject_matches subject) snapshot)) (sessions s),
        calls := calls s @ map StoreDestroy (matched (subject_matches subject) snapshot)\<rparr>,
      c + length (matched (subject_matches subject) snapshot))"
proof (induction snapshot arbitrary: s c)
  case Nil
  show ?case by (simp add: matched_def)
next
  case (Cons a snapshot)
  obtain sid sd where a: "a = (sid, sd)" by (cases a)
  show ?case
    by (simp add: a Cons.IH store_destroy_def matched_def filter_keys_twice)
qed

text \<open>
  What \<open>destroyUserSessions\<close> computes for a non-empty email: the ids of the entry are
  destroyed first, the store is enumerated once, and the sessions of the snapshot that
  pass the email test are destroyed and counted as well.
\<close>

lemma destroyUserSessions_eq:
  assumes "email \<noteq> []"
  shows "destroyUserSessions email st =
    (let n = toLowerCase email;
         ids = (case userSessions st n of None \<Rightarrow> [] | Some sessionIds \<Rightarrow> sessionIds);
         snapshot = filter (\<lambda>p. fst p \<notin> set ids) (sessions (store st));
         hits = matched (email_matches n) snapshot
     in (length ids + length hits,
         \<lparr>userSessions = (userSessions st)(n := None),
          store = \<lparr>sessions = filter (\<lambda>p. fst p \<notin> set hits) snapshot,
                   calls = calls (store st) @ map StoreDestroy ids
                             @ StoreAll # map StoreDestroy hits\<rparr>\<rparr>))"
proof (cases "userSessions st (toLowerCase email)")
  case None
  then have "(userSessions st)(toLowerCase email := None) = userSessions st"
    by (simp add: fun_upd_idem)
  with None assms show ?thesis
    by (simp add: destroyUserSessions_def Let_def store_all_def fallback_scan_eq)
next
  case (Some ids)
  with assms show ?thesis
    by (simp add: destroyUserSessions_def Let_def store_all_def fallback_scan_eq
        destroy_registered_eq)
qed

lemma destroyed_if_matched:
  assumes "email \<noteq> []" and "(sid, sd) \<in> set (sessions (store st))"
    and "email_matches (toLowerCase email) sd"
  shows "sid \<notin> fst ` set (sessions (store (snd (destroyUserSessions email st))))"
proof -
  let ?ids = "case userSessions st (toLowerCase email) of None \<Rightarrow> [] | Some sessionIds \<Rightarrow> sessionIds"
  let ?snapshot = "filter (\<lambda>p. fst p \<notin> set ?ids) (sessions (store st))"
  have "sid \<in> set ?ids \<or> sid \<in> set (matched (email_matches (toLowerCase email)) ?snapshot)"
    using assms(2,3) by (force simp: matched_def)
  then show ?thesis
    by (auto simp: destroyUserSessions_eq [OF assms(1)] Let_def)
qed

lemma filter_matched_keys:
  assumes "distinct (map fst xs)"
  shows "filter (\<lambda>p. fst p \<notin> set (matched P xs)) xs = filter (\<lambda>p. \<not> P (snd p)) xs"
proof (rule filter_cong [OF refl])
  fix p assume p: "p \<in> set xs"
  have "fst p \<in> set (matched P xs) \<longleftrightarrow> P (snd p)"
  proof
    assume "fst p \<in> set (matched P xs)"
    then obtain q where q: "q \<in> set xs" "P (snd q)" "fst q = fst p"
      by (auto simp: matched_def)
    with assms p have "q = p"
      by (metis eq_key_imp_eq_value prod.collapse)
    with q show "P (snd p)" by simp
  next
    assume "P (snd p)"
    with p show "fst p \<in> set (matched P xs)"
      by (force simp: matched_def)
  qed
  then show "(fst p \<notin> set (matched P xs)) = (\<not> P (snd p))" by simp
qed

lemma lower_bearer: "toLowerCase ''Bearer'' = ''bearer''"
  by (simp add: toLowerCase_def toLowerCase_char_def)

lemma truthy_iff: "truthy v \<longleftrightarrow> (\<exists>s. v = Some s \<and> s \<noteq> [])"
  by (cases v) auto

text \<open>
  The answer of \<open>universalLogoutAuth\<close> to a header with the scheme \<open>Bearer\<close> and a
  token, and the three ways \<open>jwt_verify\<close> meets an expired token.
\<close>

lemma universalLogoutAuth_bearer:
  assumes "split_on CHR '' '' authHeader = scheme # token # rest"
    and "toLowerCase scheme = ''bearer''" and "token \<noteq> []"
  shows "universalLogoutAuth decode client now orgUrl endpoint (Some authHeader) =
     (case validateLogoutToken decode client now token endpoint
             (if orgUrl \<noteq> [] \<and> last orgUrl = CHR ''/'' then butlast orgUrl else orgUrl) of
        Inr payload \<Rightarrow> Next payload
      | Inl err \<Rightarrow>
          Responded (Json 401 ''unauthorized''
            (if err_name err = ''TokenExpiredError'' then ''Token has expired''
             else if err_name err = ''JsonWebTokenError''
             then ''Invalid token: '' @ err_message err
             else ''Token validation failed'')))"
proof -
  have "authHeader \<noteq> []"
    using assms(1) by auto
  then show ?thesis
    using assms by (simp add: universalLogoutAuth_def Let_def split: sum.splits)
qed

lemma jwt_verify_expired:
  assumes "jwt_exp t = Some e" and "e + 30 < now"
  shows "\<exists>err. jwt_verify now t key algs iss aud 30 = Inl err"
  using assms by (auto simp: jwt_verify_def)

lemma jwt_verify_passes_to_expiry:
  assumes "jwt_exp t = Some e" and "e + 30 < now"
    and "jwt_alg t \<in> set algs" and "jwt_signer t = key"
    and "\<forall>n. jwt_nbf t = Some n \<longrightarrow> n \<le> now + 30"
  shows "jwt_verify now t key algs iss aud 30 =
           Inl \<lparr>err_name = ''TokenExpiredError'', err_message = ''jwt expired''\<rparr>"
  using assms by (auto simp: jwt_verify_def split: option.splits)

lemma jwt_verify_expired_only:
  assumes "jwt_verify now t key algs iss aud 30 = Inl err"
    and "err_name err = ''TokenExpiredError''"
  shows "\<exists>e. jwt_exp t = Some e \<and> e + 30 \<le> now"
  using assms by (auto simp: jwt_verify_def split: if_splits option.splits)

section \<open>The directory invariant\<close>

text \<open>
  Claim C6. The invariant of the directory, that no entry holds an empty set of
  session ids, is preserved by \<open>registerUserSession\<close>, by \<open>unregisterUserSession\<close> and
  by \<open>destroyUserSessions\<close>. On a directory without an entry for the identity,
  registering a session id and then unregistering the same id gives the directory back,
  so no entry is left for that identity.
\<close>

theorem directory_invariant_preserved:
  assumes "directory_invariant m"
  shows "directory_invariant (registerUserSession email sessionId m)
       \<and> directory_invariant (unregisterUserSession email sessionId m)
       \<and> directory_invariant
           (userSessions (snd (destroyUserSessions email \<lparr>userSessions = m, store = s\<rparr>)))
       \<and> (m (toLowerCase email) = None \<longrightarrow>
            unregisterUserSession email sessionId (registerUserSession email sessionId m) = m
            \<and> unregisterUserSession email sessionId (registerUserSession email sessionId m)
                (toLowerCase email) = None)"
proof (intro conjI impI)
  show "directory_invariant (registerUserSession email sessionId m)"
    using assms
    by (auto simp: directory_invariant_def registerUserSession_def Let_def set_add_not_Nil
        split: option.splits)
  show "directory_invariant (unregisterUserSession email sessionId m)"
    using assms
    by (auto simp: directory_invariant_def unregisterUserSession_def Let_def
        split: option.splits)
  show "directory_invariant
          (userSessions (snd (destroyUserSessions email \<lparr>userSessions = m, store = s\<rparr>)))"
  proof (cases "email = []")
    case True
    with assms show ?thesis
      by (simp add: destroyUserSessions_def)
  next
    case False
    with assms show ?thesis
      by (simp add: directory_invariant_def destroyUserSessions_eq Let_def)
  qed
next
  assume none: "m (toLowerCase email) = None"
  then show same: "unregisterUserSession email sessionId (registerUserSession email sessionId m) = m"
    by (auto simp: unregisterUserSession_def registerUserSession_def Let_def set_add_def
        set_delete_def split: option.splits)
  show "unregisterUserSession email sessionId (registerUserSession email sessionId m)
          (toLowerCase email) = None"
    using none same by simp
qed

theorem directory_invariant_preserved_witness:
  "directory_invariant Map.empty
   \<and> registerUserSession ''A@b.c'' ''s1'' Map.empty ''a@b.c'' = Some [''s1'']
   \<and> directory_invariant (registerUserSession ''A@b.c'' ''s1'' Map.empty)
   \<and> unregisterUserSession ''A@b.c'' ''s1'' (registerUserSession ''A@b.c'' ''s1'' Map.empty)
       ''a@b.c'' = None"
  using directory_invariant_preserved [of Map.empty "''A@b.c''" "''s1''"]
  by (simp add: directory_invariant_def registerUserSession_def Let_def set_add_def lower_abc)

section \<open>Destroying the sessions of an email\<close>

text \<open>
  Claim C1, as amended. For a non-empty identity whose directory entry holds N distinct
  session ids, \<open>destroyUserSessions\<close> returns N plus the number of sessions that are
  still in the store after the N destroy calls and pass the email test of the fallback
  scan. The result is therefore at least N, it is exactly N when no session outside the
  entry passes that test, and no entry is left for the identity.
\<close>

theorem destroyUserSessions_count:
  assumes "email \<noteq> []"
    and "userSessions st (toLowerCase email) = Some ids"
    and "distinct ids"
  shows "fst (destroyUserSessions email st) =
           card (set ids) +
           length (filter (\<lambda>p. email_matches (toLowerCase email) (snd p))
                     (filter (\<lambda>p. fst p \<notin> set ids) (sessions (store st))))
       \<and> card (set ids) \<le> fst (destroyUserSessions email st)
       \<and> ((\<forall>p \<in> set (sessions (store st)).
              fst p \<in> set ids \<or> \<not> email_matches (toLowerCase email) (snd p))
            \<longrightarrow> fst (destroyUserSessions email st) = card (set ids))
       \<and> userSessions (snd (destroyUserSessions email st)) (toLowerCase email) = None"
proof -
  have c: "card (set ids) = length ids"
    using assms(3) by (simp add: distinct_card)
  have z: "filter (\<lambda>p. email_matches (toLowerCase email) (snd p))
             (filter (\<lambda>p. fst p \<notin> set ids) (sessions (store st))) = []"
    if "\<forall>p \<in> set (sessions (store st)).
          fst p \<in> set ids \<or> \<not> email_matches (toLowerCase email) (snd p)"
    using that by (auto simp: filter_empty_conv)
  show ?thesis
    using assms(2) z
    by (simp add: destroyUserSessions_eq [OF assms(1)] Let_def matched_def c)
qed

theorem destroyUserSessions_count_witness:
  "userSessions
     \<lparr>userSessions = [''a@b.c'' \<mapsto> [''s1'', ''s2'']],
      store = \<lparr>sessions = [(''s1'', session_of empty_principal)], calls = []\<rparr>\<rparr>
     (toLowerCase ''A@b.c'') = Some [''s1'', ''s2'']
   \<and> distinct [''s1'', ''s2'']
   \<and> fst (destroyUserSessions ''A@b.c''
        \<lparr>userSessions = [''a@b.c'' \<mapsto> [''s1'', ''s2'']],
         store = \<lparr>sessions = [(''s1'', session_of empty_principal)], calls = []\<rparr>\<rparr>) = 2"
  using destroyUserSessions_count [of "''A@b.c''"
      "\<lparr>userSessions = [''a@b.c'' \<mapsto> [''s1'', ''s2'']],
        store = \<lparr>sessions = [(''s1'', session_of empty_principal)], calls = []\<rparr>\<rparr>"
      "[''s1'', ''s2'']"]
  by (simp add: lower_abc)

text \<open>
  The claim as first stated fails: the entry of the identity holds one session id, and
  the result is 2, since the store holds a second session of that email which the
  directory does not know.
\<close>

theorem destroyUserSessions_count_counterexample:
  "userSessions tracked_and_untracked (toLowerCase ''a@b.c'') = Some [''s1'']
   \<and> fst (destroyUserSessions ''a@b.c'' tracked_and_untracked) = 2"
  by (simp add: destroyUserSessions_def Let_def tracked_and_untracked_def lower_abc
      store_all_def store_destroy_def email_matches_def session_of_def empty_principal_def
      userEmail_of_def or_js_def first_email_value_def nested_email_def)

text \<open>
  Claim C2, as amended. For a non-empty identity without a directory entry,
  \<open>destroyUserSessions\<close> makes no destroy call out of the directory, enumerates the
  store exactly once, destroys and counts the sessions that pass the email test of the
  fallback scan, and leaves the directory as it was; the result is 0 when no session
  passes. For the empty identity the result is 0 and the state, with the log of store
  calls, is unchanged.
\<close>

theorem destroyUserSessions_unknown:
  assumes "userSessions st (toLowerCase email) = None"
  shows "(email = [] \<longrightarrow> destroyUserSessions email st = (0, st))
       \<and> (email \<noteq> [] \<longrightarrow>
            fst (destroyUserSessions email st) =
              length (matched (email_matches (toLowerCase email)) (sessions (store st)))
            \<and> calls (store (snd (destroyUserSessions email st))) =
                calls (store st) @ StoreAll #
                  map StoreDestroy (matched (email_matches (toLowerCase email)) (sessions (store st)))
            \<and> userSessions (snd (destroyUserSessions email st)) = userSessions st)"
proof (cases "email = []")
  case True
  then show ?thesis by (simp add: destroyUserSessions_def)
next
  case False
  have "(userSessions st)(toLowerCase email := None) = userSessions st"
    using assms by (simp add: fun_upd_idem)
  with False assms show ?thesis
    by (simp add: destroyUserSessions_eq Let_def)
qed

theorem destroyUserSessions_unknown_witness:
  "userSessions idle_state (toLowerCase ''a@b.c'') = None
   \<and> fst (destroyUserSessions ''a@b.c'' idle_state) = 0
   \<and> calls (store (snd (destroyUserSessions ''a@b.c'' idle_state))) = [StoreAll]
   \<and> destroyUserSessions [] idle_state = (0, idle_state)"
  using destroyUserSessions_unknown [of idle_state "''a@b.c''"]
    destroyUserSessions_unknown [of idle_state "[]"]
  by (simp add: idle_state_def matched_def toLowerCase_def)

text \<open>
  The claim as first stated fails: without an entry for the identity the store is
  enumerated, and a session of that email found there is destroyed and counted.
\<close>

theorem destroyUserSessions_unknown_counterexample:
  "userSessions untracked_only (toLowerCase ''a@b.c'') = None
   \<and> calls (store untracked_only) = []
   \<and> fst (destroyUserSessions ''a@b.c'' untracked_only) = 1
   \<and> calls (store (snd (destroyUserSessions ''a@b.c'' untracked_only))) =
       [StoreAll, StoreDestroy ''s7'']"
  by (simp add: destroyUserSessions_def Let_def untracked_only_def lower_abc
      store_all_def store_destroy_def email_matches_def session_of_def empty_principal_def
      userEmail_of_def or_js_def first_email_value_def nested_email_def)

section \<open>The fallback scan\<close>

text \<open>
  Claim C3, as amended. For a non-empty target email and a session of the store with a
  principal, the session is destroyed when the first non-empty field in the order
  \<open>emails[0].value\<close>, \<open>email\<close>, \<open>_json.email\<close>, \<open>preferred_username\<close> carries the
  target email up to the case of the letters: a field suffices when every field before
  it is absent or empty.
\<close>

theorem fallback_scan_priority:
  assumes "email \<noteq> []"
    and "(sid, sd) \<in> set (sessions (store st))"
    and "passport sd = Some p" and "passport_user p = Some user"
    and "carries email (first_email_value user)
       \<or> \<not> truthy (first_email_value user) \<and> carries email (user_email user)
       \<or> \<not> truthy (first_email_value user) \<and> \<not> truthy (user_email user)
           \<and> carries email (nested_email user)
       \<or> \<not> truthy (first_email_value user) \<and> \<not> truthy (user_email user)
           \<and> \<not> truthy (nested_email user) \<and> carries email (user_preferred_username user)"
  shows "sid \<notin> fst ` set (sessions (store (snd (destroyUserSessions email st))))"
proof -
  have ne: "toLowerCase e = toLowerCase email \<Longrightarrow> e \<noteq> []" for e
    using assms(1) by (metis toLowerCase_Nil_iff)
  have "email_matches (toLowerCase email) sd"
    using assms(3,4,5) ne
    by (auto simp: email_matches_def userEmail_of_def or_js_def carries_def
        split: option.splits)
  then show ?thesis
    using destroyed_if_matched assms(1,2) by blast
qed

theorem fallback_scan_priority_witness:
  "(''s7'', session_of (empty_principal\<lparr>user_preferred_username := Some ''a@b.c''\<rparr>))
      \<in> set (sessions (store untracked_only))
   \<and> ''s7'' \<notin> fst ` set (sessions (store (snd (destroyUserSessions ''A@b.c'' untracked_only))))"
  using fallback_scan_priority [of "''A@b.c''" "''s7''"
      "session_of (empty_principal\<lparr>user_preferred_username := Some ''a@b.c''\<rparr>)"
      untracked_only "\<lparr>passport_user = Some (empty_principal\<lparr>user_preferred_username := Some ''a@b.c''\<rparr>)\<rparr>"
      "empty_principal\<lparr>user_preferred_username := Some ''a@b.c''\<rparr>"]
  by (simp add: untracked_only_def session_of_def empty_principal_def carries_def lower_abc
      first_email_value_def nested_email_def)

text \<open>
  The claim as first stated fails: the primary email of the principal is the target,
  its first \<open>emails\<close> entry is another address, and the session survives the
  revocation.
\<close>

theorem fallback_scan_priority_counterexample:
  "sessions (store shadowed_state) = [(''s3'', session_of shadowed_principal)]
   \<and> user_email shadowed_principal = Some ''a@b.c''
   \<and> fst (destroyUserSessions ''a@b.c'' shadowed_state) = 0
   \<and> sessions (store (snd (destroyUserSessions ''a@b.c'' shadowed_state))) =
       [(''s3'', session_of shadowed_principal)]"
  by (simp add: destroyUserSessions_def Let_def shadowed_state_def shadowed_principal_def
      lower_abc store_all_def store_destroy_def email_matches_def session_of_def
      empty_principal_def userEmail_of_def or_js_def first_email_value_def nested_email_def
      toLowerCase_def toLowerCase_char_def)

section \<open>Revocation by subject\<close>

text \<open>
  Claim C9. \<open>destroyUserSessionsBySubject\<close> enumerates the store once, destroys and
  counts exactly the sessions whose principal has the subject as its \<open>id\<close> or as its
  \<open>_json.sub\<close>, and keeps the others. The directory is returned unchanged, and neither
  the count nor the resulting store depends on it.
\<close>

theorem destroyUserSessionsBySubject_frame:
  "fst (destroyUserSessionsBySubject subject st) =
     length (filter (\<lambda>p. subject_matches subject (snd p)) (sessions (store st)))
   \<and> calls (store (snd (destroyUserSessionsBySubject subject st))) =
       calls (store st) @ StoreAll #
         map StoreDestroy (matched (subject_matches subject) (sessions (store st)))
   \<and> (distinct (map fst (sessions (store st))) \<longrightarrow>
        sessions (store (snd (destroyUserSessionsBySubject subject st))) =
          filter (\<lambda>p. \<not> subject_matches subject (snd p)) (sessions (store st)))
   \<and> userSessions (snd (destroyUserSessionsBySubject subject st)) = userSessions st
   \<and> fst (destroyUserSessionsBySubject subject (st\<lparr>userSessions := d\<rparr>)) =
       fst (destroyUserSessionsBySubject subject st)
   \<and> store (snd (destroyUserSessionsBySubject subject (st\<lparr>userSessions := d\<rparr>))) =
       store (snd (destroyUserSessionsBySubject subject st))"
  by (simp add: destroyUserSessionsBySubject_def store_all_def subject_scan_eq
      filter_matched_keys) (simp add: matched_def)

theorem destroyUserSessionsBySubject_frame_witness:
  "distinct (map fst (sessions (store two_subjects)))
   \<and> fst (destroyUserSessionsBySubject ''00u1'' two_subjects) = 2
   \<and> sessions (store (snd (destroyUserSessionsBySubject ''00u1'' two_subjects))) =
       [(''s2'', session_of (empty_principal\<lparr>user_id := Some ''00u2''\<rparr>))]
   \<and> userSessions (snd (destroyUserSessionsBySubject ''00u1'' two_subjects)) ''a@b.c'' =
       Some [''s1'']"
  using destroyUserSessionsBySubject_frame [of "''00u1''" two_subjects]
  by (simp add: two_subjects_def subject_matches_def session_of_def empty_principal_def
      nested_sub_def)

section \<open>The step-up gate\<close>

text \<open>
  Claim C4. The time of the marker is written from \<open>Date.now()\<close> and is never 0. For
  every session whose \<open>mfaVerifiedAt\<close> is absent or other than 0 and every time
  \<open>now\<close>, the gate calls the protected handler if and only if \<open>mfaVerified\<close> is true
  and \<open>now - mfaVerifiedAt\<close> is below 5 minutes. A marker set at time T is fresh at
  T + 299 s and stale at T + 301 s (and at T + 300 s). In the stale or absent case the
  gate records \<open>/wire-transfer\<close> in \<open>mfaReturnUrl\<close> and redirects to \<open>/stepup-mfa\<close>
  without calling the handler.
\<close>

theorem gate_admits_iff_fresh:
  assumes "mfaVerifiedAt (session req) \<noteq> Some 0"
  shows "(mfa_fresh now (session req) \<longleftrightarrow>
            mfaVerified (session req) = Some True
            \<and> (\<exists>t. mfaVerifiedAt (session req) = Some t \<and> now - t < 5 * 60 * 1000))
       \<and> (mfa_fresh now (session req) \<longrightarrow> ensureMfaVerified now req next = next req)
       \<and> (\<not> mfa_fresh now (session req) \<longrightarrow>
            ensureMfaVerified now req next =
              (Redirect ''/stepup-mfa'',
               (session req)\<lparr>mfaReturnUrl := Some ''/wire-transfer''\<rparr>))
       \<and> (mfaVerified (session req) = Some True \<and> mfaVerifiedAt (session req) = Some T
            \<longrightarrow> mfa_fresh (T + 299000) (session req)
                \<and> \<not> mfa_fresh (T + 300000) (session req)
                \<and> \<not> mfa_fresh (T + 301000) (session req))"
  using assms
  by (auto simp: mfa_fresh_def ensureMfaVerified_def MFA_TIMEOUT_def split: option.splits)

theorem gate_admits_iff_fresh_witness:
  "mfaVerifiedAt (marked_at 1000000) \<noteq> Some 0
   \<and> ensureMfaVerified 1299000 \<lparr>isAuthenticated = True, session = marked_at 1000000\<rparr> show_form =
       (Handled ''wire-transfer'', marked_at 1000000)
   \<and> ensureMfaVerified 1301000 \<lparr>isAuthenticated = True, session = marked_at 1000000\<rparr> show_form =
       (Redirect ''/stepup-mfa'', (marked_at 1000000)\<lparr>mfaReturnUrl := Some ''/wire-transfer''\<rparr>)
   \<and> mfaVerifiedAt unmarked \<noteq> Some 0
   \<and> ensureMfaVerified 1301000 \<lparr>isAuthenticated = True, session = unmarked\<rparr> show_form =
       (Redirect ''/stepup-mfa'', unmarked\<lparr>mfaReturnUrl := Some ''/wire-transfer''\<rparr>)"
  using gate_admits_iff_fresh [of "\<lparr>isAuthenticated = True, session = marked_at 1000000\<rparr>"
      1299000 show_form 1000000]
    gate_admits_iff_fresh [of "\<lparr>isAuthenticated = True, session = marked_at 1000000\<rparr>"
      1301000 show_form 1000000]
    gate_admits_iff_fresh [of "\<lparr>isAuthenticated = True, session = unmarked\<rparr>"
      1301000 show_form 0]
  by (simp add: marked_at_def unmarked_def show_form_def)

text \<open>
  Claim C10. For an authenticated request, \<open>POST /wire-transfer\<close> reaches its handler
  whatever \<open>mfaVerified\<close> and \<open>mfaVerifiedAt\<close> are, while \<open>GET /wire-transfer\<close>
  redirects to \<open>/stepup-mfa\<close> when the marker is stale or absent.
\<close>

theorem post_not_gated:
  assumes "isAuthenticated req"
  shows "wire_transfer_post post_handler req = post_handler req
       \<and> wire_transfer_post post_handler
           (req\<lparr>session := (session req)\<lparr>mfaVerified := v, mfaVerifiedAt := t\<rparr>\<rparr>) =
         post_handler (req\<lparr>session := (session req)\<lparr>mfaVerified := v, mfaVerifiedAt := t\<rparr>\<rparr>)
       \<and> (\<not> mfa_fresh now (session req) \<longrightarrow>
            wire_transfer_get now get_handler req =
              (Redirect ''/stepup-mfa'',
               (session req)\<lparr>mfaReturnUrl := Some ''/wire-transfer''\<rparr>))
       \<and> (mfa_fresh now (session req) \<longrightarrow>
            wire_transfer_get now get_handler req = get_handler req)"
  using assms
  by (simp add: wire_transfer_post_def wire_transfer_get_def ensureLoggedIn_def
      ensureMfaVerified_def)

theorem post_not_gated_witness:
  "isAuthenticated \<lparr>isAuthenticated = True, session = unmarked\<rparr>
   \<and> \<not> mfa_fresh 1000 unmarked
   \<and> wire_transfer_post process_transfer \<lparr>isAuthenticated = True, session = unmarked\<rparr> =
       (Handled ''wire-transfer-confirm'', unmarked)
   \<and> wire_transfer_get 1000 show_form \<lparr>isAuthenticated = True, session = unmarked\<rparr> =
       (Redirect ''/stepup-mfa'', unmarked\<lparr>mfaReturnUrl := Some ''/wire-transfer''\<rparr>)"
  using post_not_gated [of "\<lparr>isAuthenticated = True, session = unmarked\<rparr>" process_transfer
      None None 1000 show_form]
  by (simp add: process_transfer_def unmarked_def mfa_fresh_def)

section \<open>Expired revocation tokens\<close>

text \<open>
  Claim C5. For a request with a \<open>Bearer\<close> token whose \<open>exp\<close> lies more than 30
  seconds in the past, validation fails and the answer is 401 \<open>unauthorized\<close>, with
  the description that belongs to the error of the validation. When the verification
  reaches the expiry check (the key id resolves, the algorithm is approved, the
  signature verifies and the token is not rejected as not yet valid) the description is
  \<open>Token has expired\<close>; and a token whose key resolves gets that description only if
  its \<open>exp\<close> lies at least 30 seconds in the past, so that expiry is told apart from
  every other invalidity.
\<close>

theorem expired_token_rejected:
  assumes "split_on CHR '' '' authHeader = scheme # token # rest"
    and "toLowerCase scheme = ''bearer''" and "token \<noteq> []"
    and "decode token = Some t"
  shows "(\<forall>e. jwt_exp t = Some e \<and> e + 30 < now \<longrightarrow>
           (\<exists>err. validateLogoutToken decode client now token endpoint
                     (if orgUrl \<noteq> [] \<and> last orgUrl = CHR ''/'' then butlast orgUrl else orgUrl) =
                   Inl err
                \<and> universalLogoutAuth decode client now orgUrl endpoint (Some authHeader) =
                    Responded (Json 401 ''unauthorized''
                      (if err_name err = ''TokenExpiredError'' then ''Token has expired''
                       else if err_name err = ''JsonWebTokenError''
                       then ''Invalid token: '' @ err_message err
                       else ''Token validation failed''))))
       \<and> (\<forall>e keys key. jwt_exp t = Some e \<and> e + 30 < now
              \<and> client = Some keys \<and> keys (jwt_kid t) = Inr key
              \<and> jwt_alg t \<in> set [''RS256'', ''RS384'', ''RS512''] \<and> jwt_signer t = key
              \<and> (\<forall>n. jwt_nbf t = Some n \<longrightarrow> n \<le> now + 30)
            \<longrightarrow> universalLogoutAuth decode client now orgUrl endpoint (Some authHeader) =
                  Responded (Json 401 ''unauthorized'' ''Token has expired''))
       \<and> (\<forall>keys key. client = Some keys \<and> keys (jwt_kid t) = Inr key
              \<and> universalLogoutAuth decode client now orgUrl endpoint (Some authHeader) =
                  Responded (Json 401 ''unauthorized'' ''Token has expired'')
            \<longrightarrow> (\<exists>e. jwt_exp t = Some e \<and> e + 30 \<le> now))"
proof (intro conjI allI impI)
  let ?iss = "if orgUrl \<noteq> [] \<and> last orgUrl = CHR ''/'' then butlast orgUrl else orgUrl"
  note auth = universalLogoutAuth_bearer [OF assms(1,2,3), of decode client now orgUrl endpoint]
  {
    fix e assume e: "jwt_exp t = Some e \<and> e + 30 < now"
    have "\<exists>err. validateLogoutToken decode client now token endpoint ?iss = Inl err"
      using assms(4) jwt_verify_expired [of t e now] e
      by (auto simp: validateLogoutToken_def split: sum.splits option.splits)
    then obtain err where err: "validateLogoutToken decode client now token endpoint ?iss = Inl err"
      by blast
    show "\<exists>err. validateLogoutToken decode client now token endpoint ?iss = Inl err
                \<and> universalLogoutAuth decode client now orgUrl endpoint (Some authHeader) =
                    Responded (Json 401 ''unauthorized''
                      (if err_name err = ''TokenExpiredError'' then ''Token has expired''
                       else if err_name err = ''JsonWebTokenError''
                       then ''Invalid token: '' @ err_message err
                       else ''Token validation failed''))"
      using err auth by auto
  }
  {
    fix e keys key
    assume h: "jwt_exp t = Some e \<and> e + 30 < now
              \<and> client = Some keys \<and> keys (jwt_kid t) = Inr key
              \<and> jwt_alg t \<in> set [''RS256'', ''RS384'', ''RS512''] \<and> jwt_signer t = key
              \<and> (\<forall>n. jwt_nbf t = Some n \<longrightarrow> n \<le> now + 30)"
    have "validateLogoutToken decode client now token endpoint ?iss =
            Inl \<lparr>err_name = ''TokenExpiredError'', err_message = ''jwt expired''\<rparr>"
      using assms(4) h
        jwt_verify_passes_to_expiry [of t e now "[''RS256'', ''RS384'', ''RS512'']" key ?iss endpoint]
      by (simp add: validateLogoutToken_def getSigningKey_def)
    then show "universalLogoutAuth decode client now orgUrl endpoint (Some authHeader) =
                  Responded (Json 401 ''unauthorized'' ''Token has expired'')"
      using auth by simp
  }
  {
    fix keys key
    assume h: "client = Some keys \<and> keys (jwt_kid t) = Inr key
              \<and> universalLogoutAuth decode client now orgUrl endpoint (Some authHeader) =
                  Responded (Json 401 ''unauthorized'' ''Token has expired'')"
    have v: "validateLogoutToken decode client now token endpoint ?iss =
             jwt_verify now t key [''RS256'', ''RS384'', ''RS512''] ?iss endpoint 30"
      using assms(4) h by (simp add: validateLogoutToken_def getSigningKey_def)
    obtain err where err: "jwt_verify now t key [''RS256'', ''RS384'', ''RS512''] ?iss endpoint 30 = Inl err"
      and name: "err_name err = ''TokenExpiredError''"
      using h auth v by (auto split: sum.splits if_splits)
    show "\<exists>e. jwt_exp t = Some e \<and> e + 30 \<le> now"
      using jwt_verify_expired_only [OF err name] .
  }
qed

theorem expired_token_rejected_witness:
  "universalLogoutAuth decode_wire (Some okta_keys) 1031 ''https://org.example/''
        ''https://app.example/api/global-token-revocation'' (Some ''Bearer t1'') =
      Responded (Json 401 ''unauthorized'' ''Token has expired'')
   \<and> universalLogoutAuth decode_wire (Some okta_keys) 1031 ''https://org.example/''
        ''https://app.example/api/global-token-revocation'' (Some ''Bearer t9'') =
      Responded (Json 401 ''unauthorized'' ''Token validation failed'')
   \<and> universalLogoutAuth decode_wire (Some okta_keys) 1031 ''https://org.example/''
        ''https://app.example/api/global-token-revocation'' (Some ''Bearer t2'') \<noteq>
      Responded (Json 401 ''unauthorized'' ''Token has expired'')"
  using expired_token_rejected [of "''Bearer t1''" "''Bearer''" "''t1''" "[]" decode_wire
      "stale_token ''k1''" 1031 "Some okta_keys" "''https://app.example/api/global-token-revocation''"
      "''https://org.example/''"]
    expired_token_rejected [of "''Bearer t9''" "''Bearer''" "''t9''" "[]" decode_wire
      "stale_token ''k9''" 1031 "Some okta_keys" "''https://app.example/api/global-token-revocation''"
      "''https://org.example/''"]
    expired_token_rejected [of "''Bearer t2''" "''Bearer''" "''t2''" "[]" decode_wire
      "fresh_token" 1031 "Some okta_keys" "''https://app.example/api/global-token-revocation''"
      "''https://org.example/''"]
  by (simp add: lower_bearer decode_wire_def stale_token_def fresh_token_def okta_keys_def
      validateLogoutToken_def getSigningKey_def)

section \<open>Subject identifiers and the response of the endpoint\<close>

text \<open>
  Claim C7. For a body with a \<open>sub_id\<close> object, \<open>extractUserIdentifier\<close> accepts
  exactly the format \<open>email\<close> with a non-empty \<open>email\<close> and the format \<open>iss_sub\<close>
  with non-empty \<open>iss\<close> and \<open>sub\<close>, whose value is \<open>iss\<close>, a bar and \<open>sub\<close>. For
  every other \<open>sub_id\<close> the endpoint answers 400 \<open>invalid_request\<close> with a description
  that names the format given (\<open>undefined\<close> when there is none) and leaves the state
  unchanged.
\<close>

theorem subject_identifier_variants:
  "(email_variant s \<longrightarrow>
      (\<exists>e. sub_email s = Some e \<and> e \<noteq> []
            \<and> extractUserIdentifier (Some s) = Some (EmailIdentifier e e)))
   \<and> (iss_sub_variant s \<longrightarrow>
      (\<exists>i u. sub_iss s = Some i \<and> sub_sub s = Some u \<and> i \<noteq> [] \<and> u \<noteq> []
            \<and> extractUserIdentifier (Some s) = Some (IssSubIdentifier (i @ ''|'' @ u) i u)))
   \<and> (\<not> email_variant s \<and> \<not> iss_sub_variant s \<longrightarrow>
        extractUserIdentifier (Some s) = None
        \<and> global_token_revocation (Some \<lparr>body_sub_id = Some s\<rparr>) st =
            (Json 400 ''invalid_request''
               (''Unrecognized subject identifier format: '' @ template_text (sub_format s)
                  @ ''. Supported formats: email, iss_sub''), st))
   \<and> (extractUserIdentifier (Some s) \<noteq> None \<longleftrightarrow> email_variant s \<or> iss_sub_variant s)"
  by (auto simp: email_variant_def iss_sub_variant_def extractUserIdentifier_def
      global_token_revocation_def truthy_iff split: option.splits)

theorem subject_identifier_variants_witness:
  "extractUserIdentifier (Some (sub_id_of (Some ''email'') (Some ''a@b.c'') None None)) =
     Some (EmailIdentifier ''a@b.c'' ''a@b.c'')
   \<and> extractUserIdentifier
       (Some (sub_id_of (Some ''iss_sub'') None (Some ''https://org.example/'') (Some ''00u1''))) =
     Some (IssSubIdentifier ''https://org.example/|00u1'' ''https://org.example/'' ''00u1'')
   \<and> global_token_revocation
       (Some \<lparr>body_sub_id = Some (sub_id_of (Some ''unknown'') (Some ''a@b.c'') None None)\<rparr>)
       idle_state =
     (Json 400 ''invalid_request''
        ''Unrecognized subject identifier format: unknown. Supported formats: email, iss_sub'',
      idle_state)
   \<and> global_token_revocation
       (Some \<lparr>body_sub_id = Some (sub_id_of (Some ''email'') (Some [])  None None)\<rparr>)
       idle_state =
     (Json 400 ''invalid_request''
        ''Unrecognized subject identifier format: email. Supported formats: email, iss_sub'',
      idle_state)"
  using subject_identifier_variants [of "sub_id_of (Some ''email'') (Some ''a@b.c'') None None"]
    subject_identifier_variants
      [of "sub_id_of (Some ''iss_sub'') None (Some ''https://org.example/'') (Some ''00u1'')"]
    subject_identifier_variants
      [of "sub_id_of (Some ''unknown'') (Some ''a@b.c'') None None" idle_state]
    subject_identifier_variants
      [of "sub_id_of (Some ''email'') (Some []) None None" idle_state]
  by (simp add: email_variant_def iss_sub_variant_def sub_id_of_def template_text_def)

text \<open>
  Claim C8. For a request with a well-formed subject identifier whose revocation
  destroys no session, the endpoint answers 204 and not 404.
\<close>

theorem zero_matches_success:
  assumes "extractUserIdentifier (Some s) = Some userIdentifier"
    and "fst (resolve_and_destroy userIdentifier st) = 0"
  shows "fst (global_token_revocation (Some \<lparr>body_sub_id = Some s\<rparr>) st) = SendStatus 204
       \<and> status_of (fst (global_token_revocation (Some \<lparr>body_sub_id = Some s\<rparr>) st)) \<noteq> 404"
  using assms
  by (simp add: global_token_revocation_def split: prod.splits)

theorem zero_matches_success_witness:
  "extractUserIdentifier (Some (sub_id_of (Some ''email'') (Some ''a@b.c'') None None)) =
     Some (EmailIdentifier ''a@b.c'' ''a@b.c'')
   \<and> fst (resolve_and_destroy (EmailIdentifier ''a@b.c'' ''a@b.c'') idle_state) = 0
   \<and> fst (global_token_revocation
        (Some \<lparr>body_sub_id = Some (sub_id_of (Some ''email'') (Some ''a@b.c'') None None)\<rparr>)
        idle_state) = SendStatus 204"
  using zero_matches_success [of "sub_id_of (Some ''email'') (Some ''a@b.c'') None None"
      "EmailIdentifier ''a@b.c'' ''a@b.c''" idle_state]
  by (simp add: sub_id_of_def extractUserIdentifier_def resolve_and_destroy_def
      destroyUserSessions_def idle_state_def lower_abc store_all_def Let_def)

end
